theory Spec2Isabelle
  imports Main "HOL-Library.Word"
begin

section \<open>The TREZOR device wrapper of libagent (libagent/device/trezor.py)\<close>

text \<open>
  The class \<open>Trezor\<close> configures and drives a client of the device library. Everything the
  device library, the transport and the process environment supply is a parameter of the
  model: the enumeration of endpoints, the opening of a transport, the client with its
  features and its remote calls, the version matcher, the environment variables.
  Exceptions are values of the type \<open>error\<close>; a call that may raise returns
  \<open>error + 'a\<close>. Logging is left out.
\<close>

subsection \<open>Bytes, exceptions, messages\<close>

type_synonym byte = "8 word"
type_synonym bytes = "byte list"

text \<open>
  The exceptions that can cross the methods of the class. \<open>CallException\<close> is the
  device library's exception for a failure reported by the device; it carries its
  rendering \<open>str(e)\<close>. \<open>AssertionError\<close> is what a failed \<open>assert\<close> raises.
  \<open>ValueError\<close>, \<open>NotFoundError\<close> and \<open>DeviceError\<close> carry their message.
  \<open>ProtocolError\<close> is the rejection of a field name by the outgoing message type and
  carries that name. \<open>OtherException\<close> stands for any other exception of the transport
  or of the device library. All of them are instances of \<open>Exception\<close>, which is what the
  handler around the ping in \<open>connect\<close> catches.
\<close>

datatype error =
    CallException string
  | AssertionError
  | ValueError string
  | NotFoundError string
  | DeviceError string
  | ProtocolError string
  | OtherException string

type_synonym field_value = string

text \<open>An \<open>IdentityType\<close> message: the fields set so far.\<close>

type_synonym identity_type = "string \<rightharpoonup> field_value"

text \<open>
  The identity object handed to the methods: \<open>items()\<close>, \<open>get_curve_name(ecdh)\<close>,
  \<open>get_bip32_address(ecdh)\<close> and \<open>to_string()\<close>.
\<close>

record identity =
  items :: "(string \<times> field_value) list"
  get_curve_name :: "bool \<Rightarrow> string"
  get_bip32_address :: "bool \<Rightarrow> 32 word list"
  to_string :: string

record hd_node =
  chain_code :: bytes
  public_key :: bytes

record public_node =
  node :: hd_node
  xpub :: string

record features =
  device_id :: string
  label :: string
  vendor :: string
  major_version :: nat
  minor_version :: nat
  patch_version :: nat
  revision :: bytes

datatype passphrase_ack = PassphraseAck (ack_passphrase: string)

text \<open>
  A PIN callback is interactive; only which one is installed matters here: the one of the
  device library (terminal entry) or the \<open>qt_handler\<close> of \<open>connect\<close>.
\<close>

datatype pin_handler = Cli_handler | Qt_handler

text \<open>
  The client object of the device library. Its remote calls answer with a value or raise
  (\<open>ping\<close>: \<open>None\<close> when it returns, \<open>Some e\<close> when it raises \<open>e\<close>);
  \<open>ping\<close> reads the two callback slots of the object, so it takes them as arguments.
  The request context given to a callback is of an arbitrary type \<open>'ctx\<close>.
\<close>

record 'ctx client =
  client_features :: features
  callback_PassphraseRequest :: "'ctx \<Rightarrow> passphrase_ack"
  callback_PinMatrixRequest :: pin_handler
  sign_identity :: "identity_type \<Rightarrow> bytes \<Rightarrow> string \<Rightarrow> string \<Rightarrow> error + bytes"
  get_ecdh_session_key :: "identity_type \<Rightarrow> bytes \<Rightarrow> string \<Rightarrow> error + bytes"
  get_public_node :: "32 word list \<Rightarrow> string \<Rightarrow> error + public_node"
  ping :: "('ctx \<Rightarrow> passphrase_ack) \<Rightarrow> pin_handler \<Rightarrow> string \<Rightarrow> bool \<Rightarrow> error option"

text \<open>
  An instance of the class: its rendering \<open>str(self)\<close>, the class attribute
  \<open>passphrase\<close>, the legal field names of \<open>IdentityType\<close> and the connection
  \<open>self.conn\<close>.
\<close>

record 'ctx trezor =
  dev_str :: string
  passphrase :: string
  identity_fields :: "string list"
  conn :: "'ctx client"

subsection \<open>Building the identity message\<close>

text \<open>
  Modelled from the spec: the message class \<open>IdentityType\<close> is not part of the source
  file. Setting a field whose name is not a legal field of the message type is rejected
  with a \<open>ProtocolError\<close>; setting a legal field stores the value.
\<close>

definition setattr_msg ::
  "string list \<Rightarrow> identity_type \<Rightarrow> string \<Rightarrow> field_value \<Rightarrow> error + identity_type" where
  "setattr_msg legal m name v =
     (if name \<in> set legal then Inr (m(name \<mapsto> v)) else Inl (ProtocolError name))"

text \<open>The loop \<open>for name, value in identity.items(): setattr(result, name, value)\<close>.\<close>

fun set_items ::
  "string list \<Rightarrow> (string \<times> field_value) list \<Rightarrow> identity_type \<Rightarrow> error + identity_type" where
  "set_items legal [] m = Inr m"
| "set_items legal ((name, v) # rest) m =
     (case setattr_msg legal m name v of
        Inl e \<Rightarrow> Inl e
      | Inr m' \<Rightarrow> set_items legal rest m')"

definition identity_proto :: "'ctx trezor \<Rightarrow> identity \<Rightarrow> error + identity_type" where
  "identity_proto self ident = set_items (identity_fields self) (items ident) Map.empty"

subsection \<open>The three operations\<close>

text \<open>
  The handler \<open>except CallException as e\<close> of \<open>sign\<close> and \<open>ecdh\<close>: a
  \<open>CallException\<close> raised in the \<open>try\<close> block becomes a \<open>DeviceError\<close> whose message is
  \<open>'{} error: {}'.format(self, e)\<close>; every other exception passes. The \<open>try\<close> block
  holds the building of the identity message, the device call and the two \<open>assert\<close>
  statements, which are taken as executed (the interpreter's default): a failed one raises
  \<open>AssertionError\<close>. The slices \<open>[:1]\<close> and \<open>[1:]\<close> are \<open>take 1\<close> and \<open>drop 1\<close>.
\<close>

fun except_CallException :: "'ctx trezor \<Rightarrow> error + 'a \<Rightarrow> error + 'a" where
  "except_CallException self (Inl (CallException e)) =
     Inl (DeviceError (dev_str self @ '' error: '' @ e))"
| "except_CallException self r = r"

definition sign :: "'ctx trezor \<Rightarrow> identity \<Rightarrow> bytes \<Rightarrow> error + bytes" where
  "sign self ident blob =
     (let curve_name = get_curve_name ident False in
      except_CallException self
        (case identity_proto self ident of
           Inl e \<Rightarrow> Inl e
         | Inr proto \<Rightarrow>
             (case sign_identity (conn self) proto blob [] curve_name of
                Inl e \<Rightarrow> Inl e
              | Inr signature \<Rightarrow>
                  if length signature \<noteq> 65 then Inl AssertionError
                  else if take 1 signature \<noteq> [0] then Inl AssertionError
                  else Inr (drop 1 signature))))"

definition ecdh :: "'ctx trezor \<Rightarrow> identity \<Rightarrow> bytes \<Rightarrow> error + bytes" where
  "ecdh self ident pubkey_bytes =
     (let curve_name = get_curve_name ident True in
      except_CallException self
        (case identity_proto self ident of
           Inl e \<Rightarrow> Inl e
         | Inr proto \<Rightarrow>
             (case get_ecdh_session_key (conn self) proto pubkey_bytes curve_name of
                Inl e \<Rightarrow> Inl e
              | Inr session_key \<Rightarrow>
                  if length session_key \<notin> {65, 33} then Inl AssertionError
                  else if take 1 session_key \<noteq> [4] then Inl AssertionError
                  else Inr session_key)))"

definition pubkey :: "'ctx trezor \<Rightarrow> identity \<Rightarrow> bool \<Rightarrow> error + bytes" where
  "pubkey self ident ecdh_flag =
     (let curve_name = get_curve_name ident ecdh_flag;
          addr = get_bip32_address ident ecdh_flag in
      case get_public_node (conn self) addr curve_name of
        Inl e \<Rightarrow> Inl e
      | Inr result \<Rightarrow> Inr (public_key (node result)))"

subsection \<open>Connecting\<close>

type_synonym endpoint = string

text \<open>
  A transport class: \<open>enumerate()\<close> and the constructor, which opens the channel to an
  endpoint (\<open>None\<close>) or raises (\<open>Some e\<close>).
\<close>

record transport_impl =
  enumerate :: "endpoint list"
  open_transport :: "endpoint \<Rightarrow> error option"

text \<open>
  What the process and the imported modules supply to \<open>connect\<close>: the environment
  variables, whether standard input is an open terminal
  (\<open>not sys.stdin.closed and os.isatty(sys.stdin.fileno())\<close>), the two transport classes and the
  client constructor of \<open>trezor_defs\<close> (the constructor performs the handshake and
  holds the features), and \<open>semver.match\<close>.
\<close>

record 'ctx host =
  environ :: "string \<rightharpoonup> string"
  stdin_isatty :: bool
  BridgeTransport :: transport_impl
  HidTransport :: transport_impl
  Client :: "endpoint \<Rightarrow> error + 'ctx client"
  semver_match :: "string \<Rightarrow> string \<Rightarrow> bool"

text \<open>
  What happened to the channels, in order: a transport was opened, a ping was sent, a
  connection was closed. A channel is open when its last \<open>Opened\<close> has no later
  \<open>Closed\<close>.
\<close>

datatype event = Opened endpoint | Pinged endpoint | Closed endpoint

definition channel_open :: "endpoint \<Rightarrow> event list \<Rightarrow> bool" where
  "channel_open d w =
     foldl (\<lambda>b ev. if ev = Opened d then True else if ev = Closed d then False else b) False w"

definition os_environ_get :: "(string \<rightharpoonup> string) \<Rightarrow> string \<Rightarrow> string \<Rightarrow> string" where
  "os_environ_get env k dflt = (case env k of None \<Rightarrow> dflt | Some v \<Rightarrow> v)"

text \<open>
  The property \<open>_defs\<close> selects the transport:
  \<open>{'bridge': BridgeTransport}.get(os.environ.get('TREZOR_TRANSPORT'), HidTransport)\<close>.
\<close>

definition Transport :: "'ctx host \<Rightarrow> transport_impl" where
  "Transport h =
     (if environ h ''TREZOR_TRANSPORT'' = Some ''bridge'' then BridgeTransport h
      else HidTransport h)"

definition required_version :: string where
  "required_version = ''>=1.4.0''"

text \<open>
  The class body: \<open>passphrase = os.environ.get('TREZOR_PASSPHRASE', '')\<close>. The other
  components of an instance are given.
\<close>

definition Trezor ::
  "(string \<rightharpoonup> string) \<Rightarrow> string \<Rightarrow> string list \<Rightarrow> 'ctx client \<Rightarrow> 'ctx trezor" where
  "Trezor env name legal c =
     \<lparr>dev_str = name, passphrase = os_environ_get env ''TREZOR_PASSPHRASE'' [],
      identity_fields = legal, conn = c\<rparr>"

definition passphrase_handler :: "'ctx trezor \<Rightarrow> 'ctx \<Rightarrow> passphrase_ack" where
  "passphrase_handler self _ = PassphraseAck (passphrase self)"

definition create_pin_handler :: "'ctx host \<Rightarrow> 'ctx client \<Rightarrow> pin_handler" where
  "create_pin_handler h c =
     (if stdin_isatty h then callback_PinMatrixRequest c else Qt_handler)"

text \<open>Decimal rendering of a number, as \<open>'{}'.format\<close> does.\<close>

definition digit_char :: "nat \<Rightarrow> char" where
  "digit_char n = ''0123456789'' ! n"

fun str_of_nat :: "nat \<Rightarrow> string" where
  "str_of_nat n =
     (if n < 10 then [digit_char n] else str_of_nat (n div 10) @ [digit_char (n mod 10)])"

declare str_of_nat.simps [simp del]

definition format_version :: "features \<Rightarrow> string" where
  "format_version f =
     str_of_nat (major_version f) @ ''.'' @ str_of_nat (minor_version f) @ ''.'' @
     str_of_nat (patch_version f)"

definition upgrade_message :: "string \<Rightarrow> string \<Rightarrow> string \<Rightarrow> string" where
  "upgrade_message dev required current =
     ''Please upgrade your '' @ dev @ '' firmware to '' @ required @
     '' version (current: '' @ current @ '')''"

text \<open>
  One iteration of \<open>for d in Transport.enumerate()\<close>. The result is \<open>Some (Inr c)\<close>
  when the body returns \<open>c\<close>, \<open>Some (Inl e)\<close> when it raises \<open>e\<close>, and \<open>None\<close> when
  control reaches the end of the body, so that the loop goes on with the next endpoint.
\<close>

definition connect_body ::
  "'ctx trezor \<Rightarrow> 'ctx host \<Rightarrow> endpoint \<Rightarrow> event list
     \<Rightarrow> (error + 'ctx client) option \<times> event list" where
  "connect_body self h d w =
     (case open_transport (Transport h) d of
        Some e \<Rightarrow> (Some (Inl e), w)
      | None \<Rightarrow>
          (let w1 = w @ [Opened d] in
           case Client h d of
             Inl e \<Rightarrow> (Some (Inl e), w1)
           | Inr c0 \<Rightarrow>
               (let c1 = c0\<lparr>callback_PassphraseRequest := passphrase_handler self\<rparr>;
                    connection = c1\<lparr>callback_PinMatrixRequest := create_pin_handler h c1\<rparr>;
                    f = client_features connection;
                    current_version = format_version f in
                if \<not> semver_match h current_version required_version then
                  (Some (Inl (ValueError
                     (upgrade_message (dev_str self) required_version current_version))), w1)
                else
                  (case ping connection (callback_PassphraseRequest connection)
                          (callback_PinMatrixRequest connection) [] True of
                     Some e \<Rightarrow> (Some (Inl e), w1 @ [Pinged d, Closed d])
                   | None \<Rightarrow> (Some (Inr connection), w1 @ [Pinged d])))))"

fun connect_loop ::
  "'ctx trezor \<Rightarrow> 'ctx host \<Rightarrow> endpoint list \<Rightarrow> event list
     \<Rightarrow> (error + 'ctx client) \<times> event list" where
  "connect_loop self h [] w = (Inl (NotFoundError (dev_str self @ '' not connected'')), w)"
| "connect_loop self h (d # ds) w =
     (case connect_body self h d w of
        (Some r, w') \<Rightarrow> (r, w')
      | (None, w') \<Rightarrow> connect_loop self h ds w')"

definition connect ::
  "'ctx trezor \<Rightarrow> 'ctx host \<Rightarrow> event list \<Rightarrow> (error + 'ctx client) \<times> event list" where
  "connect self h w = connect_loop self h (enumerate (Transport h)) w"

subsection \<open>Mock devices\<close>

text \<open>
  A mocked device answers every call with a fixed response. The fixtures below are the
  concrete inputs at which the theorems are evaluated.
\<close>

definition fixture_features :: "nat \<Rightarrow> nat \<Rightarrow> nat \<Rightarrow> features" where
  "fixture_features ma mi pa =
     \<lparr>device_id = ''0123456789ABCDEF'', label = ''my trezor'', vendor = ''bitcointrezor.com'',
      major_version = ma, minor_version = mi, patch_version = pa, revision = [1, 2, 3]\<rparr>"

definition fixture_client ::
  "features \<Rightarrow> error + bytes \<Rightarrow> error + bytes \<Rightarrow> error + public_node \<Rightarrow> error option
     \<Rightarrow> nat client" where
  "fixture_client f sig_answer key_answer node_answer ping_answer =
     \<lparr>client_features = f,
      callback_PassphraseRequest = (\<lambda>n. PassphraseAck (replicate n CHR ''x'')),
      callback_PinMatrixRequest = Cli_handler,
      sign_identity = (\<lambda>_ _ _ _. sig_answer),
      get_ecdh_session_key = (\<lambda>_ _ _. key_answer),
      get_public_node = (\<lambda>_ _. node_answer),
      ping = (\<lambda>_ _ _ _. ping_answer)\<rparr>"

definition fixture_identity :: identity where
  "fixture_identity =
     \<lparr>items = [(''proto'', ''ssh''), (''user'', ''git''), (''host'', ''github.com'')],
      get_curve_name = (\<lambda>e. if e then ''curve25519'' else ''nist256p1''),
      get_bip32_address = (\<lambda>e. if e then [17, 1, 2, 3, 4] else [13, 1, 2, 3, 4]),
      to_string = ''ssh://git@github.com''\<rparr>"

definition fixture_fields :: "string list" where
  "fixture_fields = [''proto'', ''user'', ''host'', ''port'', ''path'', ''index'']"

text \<open>A version matcher that accepts a few version strings for the constraint of the class.\<close>

definition fixture_matcher :: "string \<Rightarrow> string \<Rightarrow> bool" where
  "fixture_matcher v c = (c = ''>=1.4.0'' \<and> v \<in> set [''1.4.0'', ''1.4.2'', ''1.5.0''])"

definition fixture_transport :: "endpoint list \<Rightarrow> error option \<Rightarrow> transport_impl" where
  "fixture_transport ds open_answer = \<lparr>enumerate = ds, open_transport = (\<lambda>_. open_answer)\<rparr>"

definition fixture_host ::
  "endpoint list \<Rightarrow> error option \<Rightarrow> error + nat client \<Rightarrow> nat host" where
  "fixture_host ds open_answer client_answer =
     \<lparr>environ = Map.empty, stdin_isatty = True,
      BridgeTransport = fixture_transport [] (Some (OtherException ''no bridge'')),
      HidTransport = fixture_transport ds open_answer,
      Client = (\<lambda>_. client_answer),
      semver_match = fixture_matcher\<rparr>"

definition fixture_self ::
  "error + bytes \<Rightarrow> error + bytes \<Rightarrow> error + public_node \<Rightarrow> nat trezor" where
  "fixture_self sig_answer key_answer node_answer =
     Trezor Map.empty ''Trezor'' fixture_fields
       (fixture_client (fixture_features 1 4 0) sig_answer key_answer node_answer None)"

definition old_firmware :: features where
  "old_firmware = fixture_features 1 3 9"

definition good_firmware :: features where
  "good_firmware = fixture_features 1 4 2"

definition fixture_node :: "bytes \<Rightarrow> public_node" where
  "fixture_node pk = \<lparr>node = \<lparr>chain_code = replicate 32 1, public_key = pk\<rparr>, xpub = ''xpub''\<rparr>"

text \<open>An identity with a field that \<open>IdentityType\<close> does not have.\<close>

definition fixture_bad_identity :: identity where
  "fixture_bad_identity = fixture_identity\<lparr>items := [(''proto'', ''ssh''), (''colour'', ''red'')]\<rparr>"

section \<open>Properties\<close>

subsection \<open>Auxiliary facts\<close>

lemma fixture_proto:
  "identity_proto (fixture_self a b c) fixture_identity =
     Inr [''proto'' \<mapsto> ''ssh'', ''user'' \<mapsto> ''git'', ''host'' \<mapsto> ''github.com'']"
  by (simp add: identity_proto_def fixture_self_def Trezor_def fixture_identity_def
      fixture_fields_def setattr_msg_def)

lemma fixture_sign_answer:
  "sign_identity (conn (fixture_self (Inr s) b c)) p blob v cn = Inr s"
  by (simp add: fixture_self_def Trezor_def fixture_client_def)

lemma fixture_ecdh_answer:
  "get_ecdh_session_key (conn (fixture_self a (Inr k) c)) p peer cn = Inr k"
  by (simp add: fixture_self_def Trezor_def fixture_client_def)

lemma take_one_eq: "xs \<noteq> [] \<Longrightarrow> take 1 xs = [b] \<longleftrightarrow> hd xs = b"
  by (cases xs) auto

lemma except_CallException_never_raw: "except_CallException self r \<noteq> Inl (CallException m)"
  by (cases "(self, r)" rule: except_CallException.cases) auto

lemma fixture_node_answer:
  "get_public_node (conn (fixture_self a b (Inr n))) addr cn = Inr n"
  by (simp add: fixture_self_def Trezor_def fixture_client_def)

lemma fixture_enumerate: "enumerate (Transport (fixture_host (d # ds) oa ca)) = d # ds"
  by (simp add: Transport_def fixture_host_def fixture_transport_def)

lemma fixture_enumerate_none: "enumerate (Transport (fixture_host [] oa ca)) = []"
  by (simp add: Transport_def fixture_host_def fixture_transport_def)

lemma fixture_open: "open_transport (Transport (fixture_host ds oa ca)) d = oa"
  by (simp add: Transport_def fixture_host_def fixture_transport_def)

lemma fixture_Client: "Client (fixture_host ds oa ca) d = ca"
  by (simp add: fixture_host_def)

lemma fixture_dev_str: "dev_str (fixture_self x y z) = ''Trezor''"
  by (simp add: fixture_self_def Trezor_def)

lemma fixture_client_features: "client_features (fixture_client f a b c p) = f"
  by (simp add: fixture_client_def)

lemma fixture_ping: "ping (fixture_client f a b c p) x y z t = p"
  by (simp add: fixture_client_def)

lemma old_firmware_version: "format_version old_firmware = ''1.3.9''"
  by (simp add: old_firmware_def fixture_features_def format_version_def str_of_nat.simps
      digit_char_def)

lemma good_firmware_version: "format_version good_firmware = ''1.4.2''"
  by (simp add: good_firmware_def fixture_features_def format_version_def str_of_nat.simps
      digit_char_def)

lemma old_firmware_rejected:
  "\<not> semver_match (fixture_host ds oa ca)
        (format_version (client_features (fixture_client old_firmware a b c p))) required_version"
  by (simp add: fixture_client_features old_firmware_version fixture_host_def fixture_matcher_def
      required_version_def)

lemma good_firmware_accepted:
  "semver_match (fixture_host ds oa ca)
     (format_version (client_features (fixture_client good_firmware a b c p))) required_version"
  by (simp add: fixture_client_features good_firmware_version fixture_host_def fixture_matcher_def
      required_version_def)

lemma upgrade_message_fixture:
  "upgrade_message ''Trezor'' required_version ''1.3.9'' =
     ''Please upgrade your Trezor firmware to >=1.4.0 version (current: 1.3.9)''"
  by (simp add: upgrade_message_def required_version_def)

text \<open>Every path through the body of the loop of \<open>connect\<close> returns or raises.\<close>

lemma connect_body_returns: "\<exists>r w'. connect_body self h d w = (Some r, w')"
  by (simp add: connect_body_def Let_def split: option.split sum.split)

lemma connect_body_events:
  "connect_body self h d w = (r, w')
     \<Longrightarrow> \<exists>evs. w' = w @ evs \<and> set evs \<subseteq> {Opened d, Pinged d, Closed d}"
  by (auto simp: connect_body_def Let_def split: option.splits sum.splits if_splits)

lemma connect_first:
  "enumerate (Transport h) = d # ds \<Longrightarrow> connect_body self h d w = (Some r, w')
     \<Longrightarrow> connect self h w = (r, w')"
  by (simp add: connect_def)

lemma connect_body_version_mismatch:
  assumes "open_transport (Transport h) d = None"
    and "Client h d = Inr c"
    and "\<not> semver_match h (format_version (client_features c)) required_version"
  shows "connect_body self h d w =
           (Some (Inl (ValueError (upgrade_message (dev_str self) required_version
                                     (format_version (client_features c))))),
            w @ [Opened d])"
  using assms by (simp add: connect_body_def Let_def)

lemma connect_body_ping_fails:
  assumes "open_transport (Transport h) d = None"
    and "Client h d = Inr c"
    and "semver_match h (format_version (client_features c)) required_version"
    and "ping c (passphrase_handler self)
           (create_pin_handler h (c\<lparr>callback_PassphraseRequest := passphrase_handler self\<rparr>))
           [] True = Some e"
  shows "connect_body self h d w = (Some (Inl e), w @ [Opened d, Pinged d, Closed d])"
  using assms by (simp add: connect_body_def Let_def)

lemma connect_body_success:
  assumes "open_transport (Transport h) d = None"
    and "Client h d = Inr c"
    and "semver_match h (format_version (client_features c)) required_version"
    and "ping c (passphrase_handler self)
           (create_pin_handler h (c\<lparr>callback_PassphraseRequest := passphrase_handler self\<rparr>))
           [] True = None"
  shows "connect_body self h d w =
           (Some (Inr (c\<lparr>callback_PassphraseRequest := passphrase_handler self,
                          callback_PinMatrixRequest :=
                            create_pin_handler h
                              (c\<lparr>callback_PassphraseRequest := passphrase_handler self\<rparr>)\<rparr>)),
            w @ [Opened d, Pinged d])"
  using assms by (simp add: connect_body_def Let_def)

lemma connect_body_open_fails:
  "open_transport (Transport h) d = Some e \<Longrightarrow> connect_body self h d w = (Some (Inl e), w)"
  by (simp add: connect_body_def)

lemma connect_body_client_fails:
  "open_transport (Transport h) d = None \<Longrightarrow> Client h d = Inl e
     \<Longrightarrow> connect_body self h d w = (Some (Inl e), w @ [Opened d])"
  by (simp add: connect_body_def)

lemma connect_events:
  "enumerate (Transport h) = d # ds
     \<Longrightarrow> \<exists>evs. snd (connect self h w) = w @ evs \<and> set evs \<subseteq> {Opened d, Pinged d, Closed d}"
proof -
  assume en: "enumerate (Transport h) = d # ds"
  obtain r w' where b: "connect_body self h d w = (Some r, w')"
    using connect_body_returns by blast
  from connect_body_events [OF b] obtain evs
    where evs: "w' = w @ evs" "set evs \<subseteq> {Opened d, Pinged d, Closed d}" by blast
  from connect_first [OF en b] evs show ?thesis by simp
qed

lemma fixture_pin_handler:
  "create_pin_handler (fixture_host ds oa ca)
     (fixture_client f a b c p\<lparr>callback_PassphraseRequest := g\<rparr>) = Cli_handler"
  by (simp add: create_pin_handler_def fixture_host_def fixture_client_def)

text \<open>The loop over the items of an identity stops at the first name the message rejects.\<close>

lemma set_items_rejects:
  "n \<in> fst ` set its \<Longrightarrow> n \<notin> set legal
     \<Longrightarrow> \<exists>n'. n' \<in> fst ` set its \<and> n' \<notin> set legal
              \<and> set_items legal its m = Inl (ProtocolError n')"
proof (induction its arbitrary: m)
  case Nil
  then show ?case by simp
next
  case (Cons it its)
  obtain name v where it: "it = (name, v)" by (cases it)
  show ?case
  proof (cases "name \<in> set legal")
    case True
    with Cons.prems it have "n \<in> fst ` set its" by auto
    from Cons.IH [OF this Cons.prems(2), of "m(name \<mapsto> v)"]
    obtain n' where n': "n' \<in> fst ` set its" "n' \<notin> set legal"
      "set_items legal its (m(name \<mapsto> v)) = Inl (ProtocolError n')"
      by blast
    have "set_items legal (it # its) m = Inl (ProtocolError n')"
      using True it n'(3) by (simp add: setattr_msg_def)
    moreover have "n' \<in> fst ` set (it # its)" using n'(1) by simp
    ultimately show ?thesis using n'(2) by blast
  next
    case False
    have "set_items legal (it # its) m = Inl (ProtocolError name)"
      using False it by (simp add: setattr_msg_def)
    moreover have "name \<in> fst ` set (it # its)" using it by simp
    ultimately show ?thesis using False by blast
  qed
qed

subsection \<open>Signing\<close>

text \<open>
  C1. When the device answers \<open>sign_identity\<close> with a signature of exactly 65 bytes whose
  first byte is \<open>0x00\<close>, \<open>sign\<close> returns the signature without its first byte: these are
  the last 64 bytes of the signature, unchanged, and the result has length 64.
\<close>

theorem sign_strips_prefix:
  assumes "identity_proto self ident = Inr proto"
    and "sign_identity (conn self) proto blob [] (get_curve_name ident False) = Inr signature"
    and "length signature = 65"
    and "hd signature = 0"
  shows "sign self ident blob = Inr (drop 1 signature)
       \<and> length (drop 1 signature) = 64
       \<and> drop 1 signature = drop (length signature - 64) signature
       \<and> signature = 0 # drop 1 signature"
proof -
  from assms(3) obtain b rest where sg: "signature = b # rest"
    by (cases signature) auto
  with assms(4) have b: "b = 0" by simp
  from sg assms(3) have len: "length rest = 64" by simp
  have "sign self ident blob = Inr (drop 1 signature)"
    using assms(1,2) sg b len by (simp add: sign_def)
  then show ?thesis using sg b len by simp
qed

theorem sign_strips_prefix_witness:
  "sign (fixture_self (Inr (0 # replicate 64 7)) (Inl AssertionError) (Inl AssertionError))
     fixture_identity [1, 2, 3] = Inr (replicate 64 7)
   \<and> length (replicate 64 (7 :: byte)) = 64"
proof -
  have h3: "length (0 # replicate 64 (7 :: byte)) = 65" by simp
  have h4: "hd (0 # replicate 64 (7 :: byte)) = 0" by simp
  from sign_strips_prefix [OF fixture_proto fixture_sign_answer h3 h4]
  show ?thesis by simp
qed

text \<open>
  C3. When the device answers \<open>sign_identity\<close> with a signature whose length is not 65, or
  whose length is 65 and whose first byte is not \<open>0x00\<close>, \<open>sign\<close> raises the
  \<open>AssertionError\<close> of its consistency check: it raises no \<open>DeviceError\<close> and returns no
  value.
\<close>

theorem sign_rejects_bad_shape:
  assumes "identity_proto self ident = Inr proto"
    and "sign_identity (conn self) proto blob [] (get_curve_name ident False) = Inr signature"
    and "length signature \<noteq> 65 \<or> (length signature = 65 \<and> hd signature \<noteq> 0)"
  shows "sign self ident blob = Inl AssertionError
       \<and> (\<forall>msg. sign self ident blob \<noteq> Inl (DeviceError msg))
       \<and> (\<forall>v. sign self ident blob \<noteq> Inr v)"
proof -
  have "take 1 signature = [0] \<longleftrightarrow> hd signature = 0" if "length signature = 65"
    using that by (intro take_one_eq) auto
  then have "sign self ident blob = Inl AssertionError"
    using assms by (auto simp: sign_def)
  then show ?thesis by simp
qed

theorem sign_rejects_bad_shape_witness:
  "sign (fixture_self (Inr (replicate 64 7)) (Inl AssertionError) (Inl AssertionError))
     fixture_identity [1, 2, 3] = Inl AssertionError
   \<and> sign (fixture_self (Inr (1 # replicate 64 7)) (Inl AssertionError) (Inl AssertionError))
     fixture_identity [1, 2, 3] = Inl AssertionError"
proof -
  have a: "length (replicate 64 (7 :: byte)) \<noteq> 65
      \<or> (length (replicate 64 (7 :: byte)) = 65 \<and> hd (replicate 64 (7 :: byte)) \<noteq> 0)"
    by simp
  have b: "length (1 # replicate 64 (7 :: byte)) \<noteq> 65
      \<or> (length (1 # replicate 64 (7 :: byte)) = 65 \<and> hd (1 # replicate 64 (7 :: byte)) \<noteq> 0)"
    by simp
  show ?thesis
    using sign_rejects_bad_shape [OF fixture_proto fixture_sign_answer a]
      sign_rejects_bad_shape [OF fixture_proto fixture_sign_answer b]
    by simp
qed

subsection \<open>Key agreement\<close>

text \<open>
  The second assertion of \<open>ecdh\<close> checks the first byte of every session key, also of a
  33-byte one: a 33-byte session key that starts with \<open>0x02\<close> is not returned.
\<close>

theorem ecdh_compressed_prefix_counterexample:
  "get_ecdh_session_key
      (conn (fixture_self (Inl AssertionError) (Inr (2 # replicate 32 9)) (Inl AssertionError)))
      [''proto'' \<mapsto> ''ssh'', ''user'' \<mapsto> ''git'', ''host'' \<mapsto> ''github.com''] [5, 6]
      (get_curve_name fixture_identity True) = Inr (2 # replicate 32 9)
   \<and> length (2 # replicate 32 (9 :: byte)) = 33
   \<and> ecdh (fixture_self (Inl AssertionError) (Inr (2 # replicate 32 9)) (Inl AssertionError))
        fixture_identity [5, 6] = Inl AssertionError"
  by (simp add: ecdh_def fixture_proto fixture_ecdh_answer)

text \<open>
  C2, amended. When the device answers \<open>get_ecdh_session_key\<close>: a session key of 65 bytes
  that starts with \<open>0x04\<close> is returned unchanged; a session key of 33 bytes that starts
  with \<open>0x04\<close> is returned unchanged; a session key of 65 or of 33 bytes whose first byte
  is not \<open>0x04\<close> makes \<open>ecdh\<close> raise the \<open>AssertionError\<close> of its consistency check,
  which is neither a return nor a \<open>DeviceError\<close>.
\<close>

theorem ecdh_session_key_shape:
  assumes "identity_proto self ident = Inr proto"
    and "get_ecdh_session_key (conn self) proto peer (get_curve_name ident True) = Inr session_key"
  shows "(length session_key = 65 \<and> hd session_key = 4 \<longrightarrow> ecdh self ident peer = Inr session_key)
       \<and> (length session_key = 33 \<and> hd session_key = 4 \<longrightarrow> ecdh self ident peer = Inr session_key)
       \<and> (length session_key = 65 \<and> hd session_key \<noteq> 4 \<longrightarrow> ecdh self ident peer = Inl AssertionError)
       \<and> (length session_key = 33 \<and> hd session_key \<noteq> 4 \<longrightarrow> ecdh self ident peer = Inl AssertionError)"
proof -
  have "take 1 session_key = [4] \<longleftrightarrow> hd session_key = 4"
    if "length session_key = 65 \<or> length session_key = 33"
    using that by (intro take_one_eq) auto
  then show ?thesis using assms by (auto simp: ecdh_def)
qed

theorem ecdh_session_key_shape_witness:
  "ecdh (fixture_self (Inl AssertionError) (Inr (4 # replicate 64 9)) (Inl AssertionError))
     fixture_identity [5, 6] = Inr (4 # replicate 64 9)
   \<and> ecdh (fixture_self (Inl AssertionError) (Inr (4 # replicate 32 9)) (Inl AssertionError))
     fixture_identity [5, 6] = Inr (4 # replicate 32 9)
   \<and> ecdh (fixture_self (Inl AssertionError) (Inr (1 # replicate 64 9)) (Inl AssertionError))
     fixture_identity [5, 6] = Inl AssertionError
   \<and> ecdh (fixture_self (Inl AssertionError) (Inr (2 # replicate 32 9)) (Inl AssertionError))
     fixture_identity [5, 6] = Inl AssertionError"
  using ecdh_session_key_shape [OF fixture_proto fixture_ecdh_answer, of "4 # replicate 64 9"]
    ecdh_session_key_shape [OF fixture_proto fixture_ecdh_answer, of "4 # replicate 32 9"]
    ecdh_session_key_shape [OF fixture_proto fixture_ecdh_answer, of "1 # replicate 64 9"]
    ecdh_session_key_shape [OF fixture_proto fixture_ecdh_answer, of "2 # replicate 32 9"]
  by simp

subsection \<open>Faults reported by the device\<close>

text \<open>
  C4. When the device call of \<open>sign\<close> or of \<open>ecdh\<close> raises a \<open>CallException\<close>, the
  operation raises a \<open>DeviceError\<close> whose message is the rendering of the device object,
  the text \<open>error:\<close> and the rendering of the fault. Neither operation ever raises a
  \<open>CallException\<close> to its caller.
\<close>

theorem device_fault_wrapped:
  assumes "identity_proto self ident = Inr proto"
  shows "(sign_identity (conn self) proto blob [] (get_curve_name ident False) = Inl (CallException m)
            \<longrightarrow> sign self ident blob = Inl (DeviceError (dev_str self @ '' error: '' @ m)))
       \<and> (get_ecdh_session_key (conn self) proto peer (get_curve_name ident True) = Inl (CallException m)
            \<longrightarrow> ecdh self ident peer = Inl (DeviceError (dev_str self @ '' error: '' @ m)))
       \<and> (\<forall>m'. sign self ident blob \<noteq> Inl (CallException m'))
       \<and> (\<forall>m'. ecdh self ident peer \<noteq> Inl (CallException m'))"
  using assms by (auto simp: sign_def ecdh_def except_CallException_never_raw)

theorem device_fault_wrapped_witness:
  "sign (fixture_self (Inl (CallException ''Action cancelled by user'')) (Inl AssertionError)
           (Inl AssertionError)) fixture_identity [1, 2, 3]
     = Inl (DeviceError ''Trezor error: Action cancelled by user'')
   \<and> ecdh (fixture_self (Inl AssertionError) (Inl (CallException ''Action cancelled by user''))
           (Inl AssertionError)) fixture_identity [5, 6]
     = Inl (DeviceError ''Trezor error: Action cancelled by user'')"
proof -
  let ?m = "''Action cancelled by user''"
  let ?p = "[''proto'' \<mapsto> ''ssh'', ''user'' \<mapsto> ''git'', ''host'' \<mapsto> ''github.com'']"
  have a: "sign_identity (conn (fixture_self (Inl (CallException ?m)) (Inl AssertionError)
      (Inl AssertionError))) ?p [1, 2, 3] [] (get_curve_name fixture_identity False)
      = Inl (CallException ?m)"
    by (simp add: fixture_self_def Trezor_def fixture_client_def)
  have b: "get_ecdh_session_key (conn (fixture_self (Inl AssertionError) (Inl (CallException ?m))
      (Inl AssertionError))) ?p [5, 6] (get_curve_name fixture_identity True)
      = Inl (CallException ?m)"
    by (simp add: fixture_self_def Trezor_def fixture_client_def)
  have n: "dev_str (fixture_self x y z) = ''Trezor''" for x y z
    by (simp add: fixture_self_def Trezor_def)
  show ?thesis
    using device_fault_wrapped [OF fixture_proto, of _ _ _ "[1, 2, 3]" ?m "[5, 6]"] a b n
    by simp
qed

subsection \<open>The public key\<close>

text \<open>
  \<open>pubkey\<close> checks nothing about the key it returns: a device that answers with a
  three-byte key gets these three bytes back.
\<close>

theorem pubkey_short_key_counterexample:
  "get_public_node (conn (fixture_self (Inl AssertionError) (Inl AssertionError)
       (Inr (fixture_node [2, 7, 7]))))
     (get_bip32_address fixture_identity False) (get_curve_name fixture_identity False)
     = Inr (fixture_node [2, 7, 7])
   \<and> pubkey (fixture_self (Inl AssertionError) (Inl AssertionError) (Inr (fixture_node [2, 7, 7])))
       fixture_identity False = Inr [2, 7, 7]
   \<and> length [2 :: byte, 7, 7] \<notin> {33, 65}"
  by (simp add: pubkey_def fixture_node_answer) (simp add: fixture_node_def)

text \<open>
  C9, amended. For every successful answer of the device to \<open>get_public_node\<close>, \<open>pubkey\<close>
  returns exactly the public-key bytes of the node field of the answer, unchanged,
  whatever their length.
\<close>

theorem pubkey_returns_node_key:
  assumes "get_public_node (conn self) (get_bip32_address ident ecdh_flag)
             (get_curve_name ident ecdh_flag) = Inr result"
  shows "pubkey self ident ecdh_flag = Inr (public_key (node result))"
  using assms by (simp add: pubkey_def)

theorem pubkey_returns_node_key_witness:
  "pubkey (fixture_self (Inl AssertionError) (Inl AssertionError)
       (Inr (fixture_node (2 # replicate 32 5)))) fixture_identity False
     = Inr (2 # replicate 32 5)"
  using pubkey_returns_node_key [OF fixture_node_answer, of _ _ "fixture_node (2 # replicate 32 5)"]
  by (simp add: fixture_node_def)

subsection \<open>Unknown identity fields\<close>

text \<open>
  C7. When an identity has a field whose name is not a legal field of the outgoing message
  type, building the message raises a \<open>ProtocolError\<close> for a field of the identity that
  the message type does not have, and \<open>sign\<close> and \<open>ecdh\<close> raise this error: the
  unknown name is not passed over in silence.
\<close>

theorem identity_proto_rejects_unknown_field:
  assumes "name \<in> fst ` set (items ident)"
    and "name \<notin> set (identity_fields self)"
  shows "\<exists>n\<in>fst ` set (items ident). n \<notin> set (identity_fields self)
           \<and> identity_proto self ident = Inl (ProtocolError n)
           \<and> sign self ident blob = Inl (ProtocolError n)
           \<and> ecdh self ident peer = Inl (ProtocolError n)"
proof -
  from set_items_rejects [OF assms, of Map.empty]
  obtain n where n: "n \<in> fst ` set (items ident)" "n \<notin> set (identity_fields self)"
    "identity_proto self ident = Inl (ProtocolError n)"
    by (auto simp: identity_proto_def)
  then have "sign self ident blob = Inl (ProtocolError n)"
    and "ecdh self ident peer = Inl (ProtocolError n)"
    by (simp_all add: sign_def ecdh_def)
  with n show ?thesis by blast
qed

theorem identity_proto_rejects_unknown_field_witness:
  "identity_proto (fixture_self (Inr (0 # replicate 64 7)) (Inr (4 # replicate 64 9))
       (Inl AssertionError)) fixture_bad_identity = Inl (ProtocolError ''colour'')
   \<and> sign (fixture_self (Inr (0 # replicate 64 7)) (Inr (4 # replicate 64 9))
       (Inl AssertionError)) fixture_bad_identity [1, 2, 3] = Inl (ProtocolError ''colour'')
   \<and> ecdh (fixture_self (Inr (0 # replicate 64 7)) (Inr (4 # replicate 64 9))
       (Inl AssertionError)) fixture_bad_identity [5, 6] = Inl (ProtocolError ''colour'')"
proof -
  let ?s = "fixture_self (Inr (0 # replicate 64 7)) (Inr (4 # replicate 64 9)) (Inl AssertionError)"
  have a: "''colour'' \<in> fst ` set (items fixture_bad_identity)"
    by (simp add: fixture_bad_identity_def)
  have b: "''colour'' \<notin> set (identity_fields ?s)"
    by (simp add: fixture_self_def Trezor_def fixture_fields_def)
  have c: "n \<in> fst ` set (items fixture_bad_identity) \<Longrightarrow> n \<notin> set (identity_fields ?s)
      \<Longrightarrow> n = ''colour''" for n
    by (auto simp: fixture_bad_identity_def fixture_self_def Trezor_def fixture_fields_def)
  from identity_proto_rejects_unknown_field [OF a b, of "[1, 2, 3]" "[5, 6]"]
  obtain n where n: "n \<in> fst ` set (items fixture_bad_identity)"
    "n \<notin> set (identity_fields ?s)"
    "identity_proto ?s fixture_bad_identity = Inl (ProtocolError n)"
    "sign ?s fixture_bad_identity [1, 2, 3] = Inl (ProtocolError n)"
    "ecdh ?s fixture_bad_identity [5, 6] = Inl (ProtocolError n)"
    by blast
  from c [OF n(1,2)] n(3,4,5) show ?thesis by simp
qed

subsection \<open>Connecting: the version gate\<close>

text \<open>
  C5. When the first endpoint opens and the client reports features whose version string
  \<open>{major}.{minor}.{patch}\<close> does not match the required version \<open>>=1.4.0\<close>, \<open>connect\<close>
  raises a \<open>ValueError\<close> whose message names the required version and the current version.
  Nothing is tried again: the device is not pinged and no other endpoint is opened.
\<close>

theorem connect_version_gate:
  assumes "enumerate (Transport h) = d # ds"
    and "open_transport (Transport h) d = None"
    and "Client h d = Inr c"
    and "\<not> semver_match h (format_version (client_features c)) required_version"
  shows "connect self h w =
           (Inl (ValueError (''Please upgrade your '' @ dev_str self @ '' firmware to '' @
                   ''>=1.4.0'' @ '' version (current: '' @
                   format_version (client_features c) @ '')'')),
            w @ [Opened d])
       \<and> format_version (client_features c) =
           str_of_nat (major_version (client_features c)) @ ''.'' @
           str_of_nat (minor_version (client_features c)) @ ''.'' @
           str_of_nat (patch_version (client_features c))"
  using connect_first [OF assms(1) connect_body_version_mismatch [OF assms(2,3,4)]]
  by (simp add: upgrade_message_def required_version_def format_version_def)

theorem connect_version_gate_witness:
  "connect (fixture_self (Inl AssertionError) (Inl AssertionError) (Inl AssertionError))
     (fixture_host [''usb:001'', ''usb:002''] None
        (Inr (fixture_client old_firmware (Inl AssertionError) (Inl AssertionError)
                (Inl AssertionError) None))) []
   = (Inl (ValueError ''Please upgrade your Trezor firmware to >=1.4.0 version (current: 1.3.9)''),
      [Opened ''usb:001''])"
  using connect_version_gate [OF fixture_enumerate fixture_open fixture_Client
      old_firmware_rejected, where w = "[]"]
  by (simp add: fixture_client_features old_firmware_version fixture_dev_str)

subsection \<open>Connecting: closing the channel\<close>

text \<open>
  C6. The channel is to be closed before any failure of \<open>connect\<close> after the opening
  reaches the caller: a failed handshake, a failed version gate, a failed ping. The handler
  that closes the connection (\<open>so the next HID open() will succeed\<close>) encloses the ping
  only. At the mock devices below, \<open>connect\<close> raises at the version gate and at the
  handshake with the channel still open, while a failed ping leaves it closed.
\<close>

theorem connect_failure_leaves_channel_open:
  "connect (fixture_self (Inl AssertionError) (Inl AssertionError) (Inl AssertionError))
     (fixture_host [''usb:001''] None
        (Inr (fixture_client old_firmware (Inl AssertionError) (Inl AssertionError)
                (Inl AssertionError) None))) []
   = (Inl (ValueError ''Please upgrade your Trezor firmware to >=1.4.0 version (current: 1.3.9)''),
      [Opened ''usb:001''])
   \<and> connect (fixture_self (Inl AssertionError) (Inl AssertionError) (Inl AssertionError))
       (fixture_host [''usb:001''] None (Inl (OtherException ''no features''))) []
   = (Inl (OtherException ''no features''), [Opened ''usb:001''])
   \<and> channel_open ''usb:001'' [Opened ''usb:001'']
   \<and> connect (fixture_self (Inl AssertionError) (Inl AssertionError) (Inl AssertionError))
       (fixture_host [''usb:001''] None
          (Inr (fixture_client good_firmware (Inl AssertionError) (Inl AssertionError)
                  (Inl AssertionError) (Some (OtherException ''PIN invalid''))))) []
   = (Inl (OtherException ''PIN invalid''),
      [Opened ''usb:001'', Pinged ''usb:001'', Closed ''usb:001''])
   \<and> \<not> channel_open ''usb:001'' [Opened ''usb:001'', Pinged ''usb:001'', Closed ''usb:001'']"
proof -
  have gate: "connect (fixture_self (Inl AssertionError) (Inl AssertionError) (Inl AssertionError))
     (fixture_host [''usb:001''] None
        (Inr (fixture_client old_firmware (Inl AssertionError) (Inl AssertionError)
                (Inl AssertionError) None))) []
     = (Inl (ValueError
          ''Please upgrade your Trezor firmware to >=1.4.0 version (current: 1.3.9)''),
        [Opened ''usb:001''])"
    using connect_first [OF fixture_enumerate
        connect_body_version_mismatch [OF fixture_open fixture_Client old_firmware_rejected],
        where w = "[]"]
    by (simp add: fixture_client_features old_firmware_version fixture_dev_str
        upgrade_message_fixture)
  have handshake: "connect
      (fixture_self (Inl AssertionError) (Inl AssertionError) (Inl AssertionError))
      (fixture_host [''usb:001''] None (Inl (OtherException ''no features''))) []
     = (Inl (OtherException ''no features''), [Opened ''usb:001''])"
    using connect_first [OF fixture_enumerate
        connect_body_client_fails [OF fixture_open fixture_Client], where w = "[]"]
    by simp
  have unlock: "connect
      (fixture_self (Inl AssertionError) (Inl AssertionError) (Inl AssertionError))
      (fixture_host [''usb:001''] None
         (Inr (fixture_client good_firmware (Inl AssertionError) (Inl AssertionError)
                 (Inl AssertionError) (Some (OtherException ''PIN invalid''))))) []
     = (Inl (OtherException ''PIN invalid''),
        [Opened ''usb:001'', Pinged ''usb:001'', Closed ''usb:001''])"
    using connect_first [OF fixture_enumerate
        connect_body_ping_fails [OF fixture_open fixture_Client good_firmware_accepted
          fixture_ping], where w = "[]"]
    by simp
  have "channel_open ''usb:001'' [Opened ''usb:001'']"
    and "\<not> channel_open ''usb:001'' [Opened ''usb:001'', Pinged ''usb:001'', Closed ''usb:001'']"
    by (simp_all add: channel_open_def)
  with gate handshake unlock show ?thesis by (intro conjI)
qed

subsection \<open>Connecting: the first endpoint only\<close>

text \<open>
  C8. \<open>connect\<close> takes the endpoints in the order in which the active transport
  enumerates them and works on the first one only. There it opens the transport, creates
  the client, checks the version and pings with PIN protection; the error of whichever
  step fails (opening, creating the client, the version gate, the ping) reaches the
  caller, and otherwise the connection is returned. No outcome depends on the later
  endpoints and every event concerns the first one. When the enumeration is empty,
  \<open>connect\<close> raises \<open>NotFoundError\<close>.
\<close>

theorem connect_first_endpoint_only:
  "(enumerate (Transport h) = []
      \<longrightarrow> connect self h w = (Inl (NotFoundError (dev_str self @ '' not connected'')), w))
   \<and> (enumerate (Transport h) = d # ds
      \<longrightarrow> (\<forall>e. open_transport (Transport h) d = Some e \<longrightarrow> connect self h w = (Inl e, w))
          \<and> (\<forall>e. open_transport (Transport h) d = None \<and> Client h d = Inl e
                 \<longrightarrow> connect self h w = (Inl e, w @ [Opened d]))
          \<and> (\<forall>c. open_transport (Transport h) d = None \<and> Client h d = Inr c
                 \<longrightarrow> (\<not> semver_match h (format_version (client_features c)) required_version
                        \<longrightarrow> connect self h w =
                              (Inl (ValueError
                                 (''Please upgrade your '' @ dev_str self @ '' firmware to '' @
                                  required_version @ '' version (current: '' @
                                  format_version (client_features c) @ '')'')),
                               w @ [Opened d]))
                   \<and> (semver_match h (format_version (client_features c)) required_version
                        \<longrightarrow> (\<forall>e. ping c (passphrase_handler self)
                                     (create_pin_handler h
                                        (c\<lparr>callback_PassphraseRequest := passphrase_handler self\<rparr>))
                                     [] True = Some e
                                 \<longrightarrow> connect self h w =
                                       (Inl e, w @ [Opened d, Pinged d, Closed d]))
                          \<and> (ping c (passphrase_handler self)
                                     (create_pin_handler h
                                        (c\<lparr>callback_PassphraseRequest := passphrase_handler self\<rparr>))
                                     [] True = None
                                 \<longrightarrow> connect self h w =
                                       (Inr (c\<lparr>callback_PassphraseRequest := passphrase_handler self,
                                               callback_PinMatrixRequest :=
                                                 create_pin_handler h
                                                   (c\<lparr>callback_PassphraseRequest :=
                                                        passphrase_handler self\<rparr>)\<rparr>),
                                        w @ [Opened d, Pinged d]))))
          \<and> (\<exists>evs. snd (connect self h w) = w @ evs
                   \<and> set evs \<subseteq> {Opened d, Pinged d, Closed d}))"
proof -
  have 1: "enumerate (Transport h) = []
      \<Longrightarrow> connect self h w = (Inl (NotFoundError (dev_str self @ '' not connected'')), w)"
    by (simp add: connect_def)
  have 2: "connect self h w = (Inl e, w)"
    if "enumerate (Transport h) = d # ds" "open_transport (Transport h) d = Some e" for e
    using connect_first [OF that(1) connect_body_open_fails [OF that(2)]] .
  have 3: "connect self h w = (Inl e, w @ [Opened d])"
    if "enumerate (Transport h) = d # ds" "open_transport (Transport h) d = None"
      "Client h d = Inl e" for e
    using connect_first [OF that(1) connect_body_client_fails [OF that(2,3)]] .
  have 4: "connect self h w =
      (Inl (ValueError (''Please upgrade your '' @ dev_str self @ '' firmware to '' @
              required_version @ '' version (current: '' @
              format_version (client_features c) @ '')'')), w @ [Opened d])"
    if "enumerate (Transport h) = d # ds" "open_transport (Transport h) d = None"
      "Client h d = Inr c"
      "\<not> semver_match h (format_version (client_features c)) required_version" for c
    using connect_first [OF that(1) connect_body_version_mismatch [OF that(2,3,4)]]
    by (simp add: upgrade_message_def)
  have 5: "connect self h w = (Inl e, w @ [Opened d, Pinged d, Closed d])"
    if "enumerate (Transport h) = d # ds" "open_transport (Transport h) d = None"
      "Client h d = Inr c"
      "semver_match h (format_version (client_features c)) required_version"
      "ping c (passphrase_handler self)
         (create_pin_handler h (c\<lparr>callback_PassphraseRequest := passphrase_handler self\<rparr>))
         [] True = Some e" for c e
    using connect_first [OF that(1) connect_body_ping_fails [OF that(2,3,4,5)]] .
  have 6: "connect self h w =
      (Inr (c\<lparr>callback_PassphraseRequest := passphrase_handler self,
              callback_PinMatrixRequest :=
                create_pin_handler h
                  (c\<lparr>callback_PassphraseRequest := passphrase_handler self\<rparr>)\<rparr>),
       w @ [Opened d, Pinged d])"
    if "enumerate (Transport h) = d # ds" "open_transport (Transport h) d = None"
      "Client h d = Inr c"
      "semver_match h (format_version (client_features c)) required_version"
      "ping c (passphrase_handler self)
         (create_pin_handler h (c\<lparr>callback_PassphraseRequest := passphrase_handler self\<rparr>))
         [] True = None" for c
    using connect_first [OF that(1) connect_body_success [OF that(2,3,4,5)]] .
  note 7 = connect_events [of h d ds self w]
  show ?thesis
    apply (intro conjI impI allI)
    subgoal by (rule 1)
    subgoal by (rule 2)
    subgoal by (erule conjE, rule 3)
    subgoal by (erule conjE, rule 4)
    subgoal by (erule conjE, rule 5)
    subgoal by (erule conjE, rule 6)
    subgoal by (rule 7)
    done
qed

theorem connect_first_endpoint_only_witness:
  "connect (fixture_self (Inl AssertionError) (Inl AssertionError) (Inl AssertionError))
     (fixture_host [] None (Inl (OtherException ''unused''))) []
     = (Inl (NotFoundError ''Trezor not connected''), [])
   \<and> connect (fixture_self (Inl AssertionError) (Inl AssertionError) (Inl AssertionError))
       (fixture_host [''usb:001'', ''usb:002''] (Some (OtherException ''already claimed''))
          (Inl (OtherException ''unused''))) []
     = (Inl (OtherException ''already claimed''), [])
   \<and> connect (fixture_self (Inl AssertionError) (Inl AssertionError) (Inl AssertionError))
       (fixture_host [''usb:001'', ''usb:002''] None (Inl (OtherException ''no features''))) []
     = (Inl (OtherException ''no features''), [Opened ''usb:001''])
   \<and> connect (fixture_self (Inl AssertionError) (Inl AssertionError) (Inl AssertionError))
       (fixture_host [''usb:001'', ''usb:002''] None
          (Inr (fixture_client old_firmware (Inl AssertionError) (Inl AssertionError)
                  (Inl AssertionError) None))) []
     = (Inl (ValueError
          ''Please upgrade your Trezor firmware to >=1.4.0 version (current: 1.3.9)''),
        [Opened ''usb:001''])
   \<and> connect (fixture_self (Inl AssertionError) (Inl AssertionError) (Inl AssertionError))
       (fixture_host [''usb:001'', ''usb:002''] None
          (Inr (fixture_client good_firmware (Inl AssertionError) (Inl AssertionError)
                  (Inl AssertionError) (Some (OtherException ''PIN invalid''))))) []
     = (Inl (OtherException ''PIN invalid''),
        [Opened ''usb:001'', Pinged ''usb:001'', Closed ''usb:001''])
   \<and> connect (fixture_self (Inl AssertionError) (Inl AssertionError) (Inl AssertionError))
       (fixture_host [''usb:001'', ''usb:002''] None
          (Inr (fixture_client good_firmware (Inl AssertionError) (Inl AssertionError)
                  (Inl AssertionError) None))) []
     = (Inr (fixture_client good_firmware (Inl AssertionError) (Inl AssertionError)
               (Inl AssertionError) None
             \<lparr>callback_PassphraseRequest :=
                passphrase_handler
                  (fixture_self (Inl AssertionError) (Inl AssertionError) (Inl AssertionError)),
              callback_PinMatrixRequest := Cli_handler\<rparr>),
        [Opened ''usb:001'', Pinged ''usb:001''])"
proof -
  let ?self = "fixture_self (Inl AssertionError) (Inl AssertionError) (Inl AssertionError)"
  let ?old = "fixture_client old_firmware (Inl AssertionError) (Inl AssertionError)
                (Inl AssertionError) None :: nat client"
  let ?bad = "fixture_client good_firmware (Inl AssertionError) (Inl AssertionError)
                (Inl AssertionError) (Some (OtherException ''PIN invalid'')) :: nat client"
  let ?good = "fixture_client good_firmware (Inl AssertionError) (Inl AssertionError)
                (Inl AssertionError) None :: nat client"
  note T = connect_first_endpoint_only [where w = "[]" and d = "''usb:001''"
      and ds = "[''usb:002'']" and self = ?self]
  have a: "connect ?self (fixture_host [] None (Inl (OtherException ''unused''))) []
      = (Inl (NotFoundError ''Trezor not connected''), [])"
    using T [where h = "fixture_host [] None (Inl (OtherException ''unused''))"]
    by (simp add: fixture_enumerate_none fixture_dev_str)
  have b: "connect ?self (fixture_host [''usb:001'', ''usb:002'']
        (Some (OtherException ''already claimed'')) (Inl (OtherException ''unused''))) []
      = (Inl (OtherException ''already claimed''), [])"
    using T [where h = "fixture_host [''usb:001'', ''usb:002'']
        (Some (OtherException ''already claimed'')) (Inl (OtherException ''unused''))"]
    by (simp add: fixture_enumerate fixture_open)
  have c: "connect ?self (fixture_host [''usb:001'', ''usb:002''] None
        (Inl (OtherException ''no features''))) []
      = (Inl (OtherException ''no features''), [Opened ''usb:001''])"
    using T [where h = "fixture_host [''usb:001'', ''usb:002''] None
        (Inl (OtherException ''no features''))"]
    by (simp add: fixture_enumerate fixture_open fixture_Client)
  have d: "connect ?self (fixture_host [''usb:001'', ''usb:002''] None (Inr ?old)) []
      = (Inl (ValueError
           ''Please upgrade your Trezor firmware to >=1.4.0 version (current: 1.3.9)''),
         [Opened ''usb:001''])"
    using T [where h = "fixture_host [''usb:001'', ''usb:002''] None (Inr ?old)"]
      old_firmware_rejected [of "[''usb:001'', ''usb:002'']" None "Inr ?old"
        "Inl AssertionError" "Inl AssertionError" "Inl AssertionError" None]
      upgrade_message_fixture
    by (simp add: fixture_enumerate fixture_open fixture_Client fixture_dev_str
        fixture_client_features old_firmware_version upgrade_message_def)
  have e: "connect ?self (fixture_host [''usb:001'', ''usb:002''] None (Inr ?bad)) []
      = (Inl (OtherException ''PIN invalid''),
         [Opened ''usb:001'', Pinged ''usb:001'', Closed ''usb:001''])"
    using T [where h = "fixture_host [''usb:001'', ''usb:002''] None (Inr ?bad)"]
      good_firmware_accepted [of "[''usb:001'', ''usb:002'']" None "Inr ?bad"
        "Inl AssertionError" "Inl AssertionError" "Inl AssertionError"
        "Some (OtherException ''PIN invalid'')"]
    by (simp add: fixture_enumerate fixture_open fixture_Client fixture_ping)
  have f: "connect ?self (fixture_host [''usb:001'', ''usb:002''] None (Inr ?good)) []
      = (Inr (?good\<lparr>callback_PassphraseRequest := passphrase_handler ?self,
                    callback_PinMatrixRequest := Cli_handler\<rparr>),
         [Opened ''usb:001'', Pinged ''usb:001''])"
    using T [where h = "fixture_host [''usb:001'', ''usb:002''] None (Inr ?good)"]
      good_firmware_accepted [of "[''usb:001'', ''usb:002'']" None "Inr ?good"
        "Inl AssertionError" "Inl AssertionError" "Inl AssertionError" None]
    by (simp add: fixture_enumerate fixture_open fixture_Client fixture_ping
        fixture_pin_handler)
  from a b c d e f show ?thesis by (intro conjI)
qed

subsection \<open>The passphrase callback\<close>

text \<open>
  C10. The passphrase callback that \<open>connect\<close> registers on the connection it returns is
  \<open>passphrase_handler\<close>. It is constant in its request context: any two invocations, with
  any contexts, return the same \<open>PassphraseAck\<close>, which carries the passphrase that the
  class took from the environment variable \<open>TREZOR_PASSPHRASE\<close>, the empty string when
  the variable is not set.
\<close>

theorem passphrase_callback_constant:
  assumes "connect (Trezor env name legal c0) h w = (Inr c, w')"
  shows "callback_PassphraseRequest c = passphrase_handler (Trezor env name legal c0)
       \<and> callback_PassphraseRequest c ctx1 = callback_PassphraseRequest c ctx2
       \<and> callback_PassphraseRequest c ctx1 =
           PassphraseAck (case env ''TREZOR_PASSPHRASE'' of None \<Rightarrow> [] | Some p \<Rightarrow> p)"
proof -
  let ?self = "Trezor env name legal c0"
  have p: "passphrase_handler ?self ctx =
      PassphraseAck (case env ''TREZOR_PASSPHRASE'' of None \<Rightarrow> [] | Some p \<Rightarrow> p)" for ctx
    by (simp add: passphrase_handler_def Trezor_def os_environ_get_def)
  have body: "connect_body ?self h d w0 = (Some (Inr c), w1)
      \<Longrightarrow> callback_PassphraseRequest c = passphrase_handler ?self" for d w0 w1
    by (auto simp: connect_body_def Let_def split: option.splits sum.splits if_splits)
  have "callback_PassphraseRequest c = passphrase_handler ?self"
  proof (cases "enumerate (Transport h)")
    case Nil
    with assms show ?thesis by (simp add: connect_def)
  next
    case (Cons d ds)
    obtain r w1 where b: "connect_body ?self h d w = (Some r, w1)"
      using connect_body_returns by blast
    with assms Cons have "r = Inr c" by (simp add: connect_def)
    with b body show ?thesis by blast
  qed
  then show ?thesis using p by simp
qed

theorem passphrase_callback_constant_witness:
  "\<exists>c w'. connect (Trezor [''TREZOR_PASSPHRASE'' \<mapsto> ''hunter2''] ''Trezor'' fixture_fields
          (fixture_client good_firmware (Inl AssertionError) (Inl AssertionError)
             (Inl AssertionError) None))
       (fixture_host [''usb:001''] None
          (Inr (fixture_client good_firmware (Inl AssertionError) (Inl AssertionError)
                  (Inl AssertionError) None))) [] = (Inr c, w')
     \<and> callback_PassphraseRequest c 0 = PassphraseAck ''hunter2''
     \<and> callback_PassphraseRequest c 7 = PassphraseAck ''hunter2''"
proof -
  let ?self = "Trezor [''TREZOR_PASSPHRASE'' \<mapsto> ''hunter2''] ''Trezor'' fixture_fields
          (fixture_client good_firmware (Inl AssertionError) (Inl AssertionError)
             (Inl AssertionError) None)"
  let ?h = "fixture_host [''usb:001''] None
          (Inr (fixture_client good_firmware (Inl AssertionError) (Inl AssertionError)
                  (Inl AssertionError) None))"
  obtain c w' where ok: "connect ?self ?h [] = (Inr c, w')"
    using connect_first [OF fixture_enumerate
        connect_body_success [OF fixture_open fixture_Client good_firmware_accepted fixture_ping]]
    by blast
  have "callback_PassphraseRequest c 0 = PassphraseAck ''hunter2''
      \<and> callback_PassphraseRequest c 7 = PassphraseAck ''hunter2''"
    using passphrase_callback_constant [OF ok, of 0 7, THEN conjunct2]
    by auto
  with ok show ?thesis by blast
qed

end
